theory Spec2Isabelle
  imports Main
begin

section \<open>Ratio Ghost (Python edition): the interception and rewrite engine\<close>

text \<open>
  The development embeds \<^verbatim>\<open>RatioGSpoof.py\<close>: the bencoding decoder \<^verbatim>\<open>bdecode\<close> and the
  connection handler \<^verbatim>\<open>handle_client\<close> with the regular expressions it uses.
  Text and byte strings are both lists of 8-bit characters (\<^typ>\<open>string\<close>); the
  step from the received bytes to text is a parameter of the handler.
  Exceptions are values of \<^typ>\<open>'e + 'a\<close> with the error on the left.
\<close>

subsection \<open>Python built-ins\<close>

datatype py_error = ValueError | TypeError | OverflowError

text \<open>\<^verbatim>\<open>s.startswith(p)\<close> and the substring test \<^verbatim>\<open>sub in s\<close>.\<close>

definition startswith :: "string \<Rightarrow> string \<Rightarrow> bool" where
  "startswith p s = (take (length p) s = p)"

fun contains :: "string \<Rightarrow> string \<Rightarrow> bool" where
  "contains sub [] = (sub = [])"
| "contains sub (c # cs) = (startswith sub (c # cs) \<or> contains sub cs)"

text \<open>
  \<^verbatim>\<open>int(s)\<close> in base ten on ASCII input, as the interpreter reads it: white space is
  stripped on both sides, one sign may lead, and the digits may be grouped by single
  underscores that stand between two digits. \<open>None\<close> is the \<^verbatim>\<open>ValueError\<close>.
  The interpreter's optional bound on the number of digits is not part of the model.
\<close>

definition is_space :: "char \<Rightarrow> bool" where
  "is_space c = (c \<in> {CHR '' '', CHR 0x09, CHR 0x0A, CHR 0x0B, CHR 0x0C, CHR 0x0D})"

definition is_digit :: "char \<Rightarrow> bool" where
  "is_digit c = (c \<in> set ''0123456789'')"

definition digit_val :: "char \<Rightarrow> int" where
  "digit_val c = of_char c - 48"

definition strip :: "string \<Rightarrow> string" where
  "strip s = rev (dropWhile is_space (rev (dropWhile is_space s)))"

fun digits_ok :: "string \<Rightarrow> bool" where
  "digits_ok [] = False"
| "digits_ok [c] = is_digit c"
| "digits_ok (c # d # cs) =
     (if is_digit c then digits_ok (d # cs)
      else c = CHR ''_'' \<and> is_digit d \<and> digits_ok (d # cs))"

definition digits_value :: "string \<Rightarrow> int" where
  "digits_value s = foldl (\<lambda>a c. 10 * a + digit_val c) 0 (filter is_digit s)"

definition py_int :: "string \<Rightarrow> int option" where
  "py_int s =
     (let t = strip s;
          neg = (take 1 t = ''-'');
          u = (if take 1 t = ''+'' \<or> take 1 t = ''-'' then drop 1 t else t)
      in if take 1 u \<noteq> ''_'' \<and> digits_ok u
         then Some (if neg then - digits_value u else digits_value u)
         else None)"

text \<open>\<^verbatim>\<open>str(n)\<close> for an integer, used where the port is written into the Host header.\<close>

definition digit_char :: "int \<Rightarrow> char" where
  "digit_char d = char_of (48 + d)"

function str_digits :: "int \<Rightarrow> string" where
  "str_digits i =
     (if i < 10 then [digit_char i]
      else str_digits (i div 10) @ [digit_char (i mod 10)])"
  by pat_completeness auto
termination
  by (relation "measure nat") auto

definition str_int :: "int \<Rightarrow> string" where
  "str_int i = (if i < 0 then ''-'' @ str_digits (- i) else str_digits i)"

text \<open>
  \<^verbatim>\<open>data.index(c, start)\<close> for a one-byte \<open>c\<close> (\<open>None\<close> is the \<^verbatim>\<open>ValueError\<close>) and the slice
  \<^verbatim>\<open>data[i:j]\<close> for indices that are not negative. A slice never fails: it is cut at the
  end of the data.
\<close>

definition index_of :: "char \<Rightarrow> string \<Rightarrow> nat \<Rightarrow> nat option" where
  "index_of c data start =
     (if c \<in> set (drop start data)
      then Some (start + length (takeWhile (\<lambda>x. x \<noteq> c) (drop start data)))
      else None)"

definition slice :: "string \<Rightarrow> nat \<Rightarrow> nat \<Rightarrow> string" where
  "slice data i j = take (j - i) (drop i data)"

subsection \<open>The bencoding decoder\<close>

text \<open>
  The decoded Python object: an integer, a byte string, a list, or a dictionary. A
  dictionary keeps one entry per key in the order of first insertion; assigning to a key
  that is present replaces its value in place. Only integers and byte strings can be
  keys: a list or a dictionary as key raises \<^verbatim>\<open>TypeError\<close> at the assignment.
\<close>

datatype bvalue =
    BInt int
  | BStr string
  | BList "bvalue list"
  | BDict "(bvalue \<times> bvalue) list"

fun hashable :: "bvalue \<Rightarrow> bool" where
  "hashable (BInt _) = True"
| "hashable (BStr _) = True"
| "hashable (BList _) = False"
| "hashable (BDict _) = False"

fun dict_set :: "bvalue \<Rightarrow> bvalue \<Rightarrow> (bvalue \<times> bvalue) list \<Rightarrow> (bvalue \<times> bvalue) list" where
  "dict_set k v [] = [(k, v)]"
| "dict_set k v ((k', v') # d) =
     (if k' = k then (k', v) # d else (k', v') # dict_set k v d)"

definition dict_get :: "(bvalue \<times> bvalue) list \<Rightarrow> bvalue \<Rightarrow> bvalue \<Rightarrow> bvalue" where
  "dict_get d k dflt = (case map_of d k of Some v \<Rightarrow> v | None \<Rightarrow> dflt)"

text \<open>
  \<^verbatim>\<open>decode_next(index)\<close> returns the decoded value and the index after it. The two
  \<^verbatim>\<open>while\<close> loops of the list and dictionary branches are \<open>list_loop\<close> and \<open>dict_loop\<close>;
  they return the index of the closing \<^verbatim>\<open>e\<close>. The branch is chosen by the one-byte slice
  \<^verbatim>\<open>data[index:index+1]\<close>, which is empty at and beyond the end of the data.
  The interpreter's recursion limit is not part of the model.
\<close>

function decode_next :: "string \<Rightarrow> nat \<Rightarrow> py_error + (bvalue \<times> nat)"
  and list_loop :: "string \<Rightarrow> nat \<Rightarrow> bvalue list \<Rightarrow> py_error + (bvalue list \<times> nat)"
  and dict_loop :: "string \<Rightarrow> nat \<Rightarrow> (bvalue \<times> bvalue) list
                      \<Rightarrow> py_error + ((bvalue \<times> bvalue) list \<times> nat)"
where
  "decode_next data index =
     (if slice data index (index + 1) = ''i'' then
        (case index_of CHR ''e'' data (index + 1) of
           None \<Rightarrow> Inl ValueError
         | Some end \<Rightarrow>
             (case py_int (slice data (index + 1) end) of
                None \<Rightarrow> Inl ValueError
              | Some number \<Rightarrow> Inr (BInt number, end + 1)))
      else if slice data index (index + 1) \<noteq> []
              \<and> list_all is_digit (slice data index (index + 1)) then
        (case index_of CHR '':'' data index of
           None \<Rightarrow> Inl ValueError
         | Some colon \<Rightarrow>
             (case py_int (slice data index colon) of
                None \<Rightarrow> Inl ValueError
              | Some len \<Rightarrow>
                  (let start = colon + 1
                   in Inr (BStr (slice data start (start + nat len)), start + nat len))))
      else if slice data index (index + 1) = ''l'' then
        (case list_loop data (index + 1) [] of
           Inl e \<Rightarrow> Inl e
         | Inr (lst, index') \<Rightarrow> Inr (BList lst, index' + 1))
      else if slice data index (index + 1) = ''d'' then
        (case dict_loop data (index + 1) [] of
           Inl e \<Rightarrow> Inl e
         | Inr (d, index') \<Rightarrow> Inr (BDict d, index' + 1))
      else Inl ValueError)"
| "list_loop data index lst =
     (if slice data index (index + 1) \<noteq> ''e'' then
        (case decode_next data index of
           Inl e \<Rightarrow> Inl e
         | Inr (item, index') \<Rightarrow> list_loop data index' (lst @ [item]))
      else Inr (lst, index))"
| "dict_loop data index d =
     (if slice data index (index + 1) \<noteq> ''e'' then
        (case decode_next data index of
           Inl e \<Rightarrow> Inl e
         | Inr (key, index') \<Rightarrow>
             (case decode_next data index' of
                Inl e \<Rightarrow> Inl e
              | Inr (val, index'') \<Rightarrow>
                  if hashable key then dict_loop data index'' (dict_set key val d)
                  else Inl TypeError))
      else Inr (d, index))"
  by pat_completeness auto

text \<open>
  Every successful \<open>decode_next\<close> starts inside the data and returns a larger index, so
  the loops make progress and the decoder terminates on every input.
\<close>

lemma slice_nonempty: "slice data i (i + 1) \<noteq> [] \<Longrightarrow> i < length data"
  by (auto simp: slice_def)

lemma index_of_ge: "index_of c data start = Some e \<Longrightarrow> start \<le> e"
  by (auto simp: index_of_def split: if_splits)

lemma decode_progress:
  "decode_next_list_loop_dict_loop_dom (Inl (data, index)) \<Longrightarrow>
     decode_next data index = Inr (v, j) \<Longrightarrow> index < length data \<and> index < j"
  "decode_next_list_loop_dict_loop_dom (Inr (Inl (data, index, lst))) \<Longrightarrow>
     list_loop data index lst = Inr (l, j) \<Longrightarrow> index \<le> j"
  "decode_next_list_loop_dict_loop_dom (Inr (Inr (data, index, d))) \<Longrightarrow>
     dict_loop data index d = Inr (d', j) \<Longrightarrow> index \<le> j"
proof (induction data index and data index lst and data index d
       arbitrary: v j and l j and d' j
       rule: decode_next_list_loop_dict_loop.pinduct)
  case (1 data index)
  let ?h = "slice data index (index + 1)"
  have lt: "index < length data"
    using "1.prems" "1.hyps"(1)
    by (intro slice_nonempty) (auto simp: decode_next.psimps split: if_splits)
  consider (i) "?h = ''i''"
    | (s) "?h \<noteq> ''i''" "?h \<noteq> [] \<and> list_all is_digit ?h"
    | (l) "?h \<noteq> ''i''" "\<not> (?h \<noteq> [] \<and> list_all is_digit ?h)" "?h = ''l''"
    | (d) "?h \<noteq> ''i''" "\<not> (?h \<noteq> [] \<and> list_all is_digit ?h)" "?h \<noteq> ''l''" "?h = ''d''"
    | (o) "?h \<noteq> ''i''" "\<not> (?h \<noteq> [] \<and> list_all is_digit ?h)" "?h \<noteq> ''l''" "?h \<noteq> ''d''"
    by blast
  then have "index < j"
  proof cases
    case i
    with "1.prems" "1.hyps"(1) show ?thesis
      by (auto simp: decode_next.psimps split: option.splits dest!: index_of_ge)
  next
    case s
    with "1.prems" "1.hyps"(1) show ?thesis
      by (auto simp: decode_next.psimps Let_def split: option.splits dest!: index_of_ge)
  next
    case l
    from l "1.prems" "1.hyps"(1) obtain lst k where
      r: "list_loop data (index + 1) [] = Inr (lst, k)" and j: "j = k + 1"
      by (auto simp: decode_next.psimps split: sum.splits)
    from "1.IH"(1)[OF l r] j show ?thesis by simp
  next
    case d
    from d "1.prems" "1.hyps"(1) obtain kv k where
      r: "dict_loop data (index + 1) [] = Inr (kv, k)" and j: "j = k + 1"
      by (auto simp: decode_next.psimps split: sum.splits)
    from "1.IH"(2)[OF d r] j show ?thesis by simp
  next
    case o
    with "1.prems" "1.hyps"(1) show ?thesis
      by (auto simp: decode_next.psimps split: if_splits)
  qed
  with lt show ?case by simp
next
  case (2 data index lst)
  show ?case
  proof (cases "slice data index (index + 1) \<noteq> ''e''")
    case True
    with "2.prems" "2.hyps" obtain item k where
      a: "decode_next data index = Inr (item, k)"
      and b: "list_loop data k (lst @ [item]) = Inr (l, j)"
      by (auto simp: list_loop.psimps split: sum.splits)
    from "2.IH"(1)[OF True a] "2.IH"(2)[OF True a refl b] show ?thesis by simp
  next
    case False
    with "2.prems" "2.hyps" show ?thesis by (simp add: list_loop.psimps)
  qed
next
  case (3 data index d)
  show ?case
  proof (cases "slice data index (index + 1) \<noteq> ''e''")
    case True
    with "3.prems" "3.hyps" obtain key k val k' where
      a: "decode_next data index = Inr (key, k)"
      and b: "decode_next data k = Inr (val, k')"
      and h: "hashable key"
      and c: "dict_loop data k' (dict_set key val d) = Inr (d', j)"
      by (auto simp: dict_loop.psimps split: sum.splits if_splits)
    from "3.IH"(1)[OF True a] "3.IH"(2)[OF True a refl b]
         "3.IH"(3)[OF True a refl b refl h c]
    show ?thesis by simp
  next
    case False
    with "3.prems" "3.hyps" show ?thesis by (simp add: dict_loop.psimps)
  qed
qed

termination decode_next
proof (relation "measure (\<lambda>x. case x of
            Inl (data, index) \<Rightarrow> 2 * (length data - index)
          | Inr (Inl (data, index, lst)) \<Rightarrow> 2 * (length data - index) + 1
          | Inr (Inr (data, index, d)) \<Rightarrow> 2 * (length data - index) + 1)", goal_cases)
  case 1
  show ?case by simp
next
  case (2 data index)
  then have "index < length data" by (intro slice_nonempty) simp
  then show ?case by simp
next
  case (3 data index)
  then have "index < length data" by (intro slice_nonempty) simp
  then show ?case by simp
next
  case (4 data index lst)
  then show ?case by simp
next
  case (5 data index lst x item k)
  from decode_progress(1)[OF this(4)] this(2,3) show ?case by auto
next
  case (6 data index d)
  then show ?case by simp
next
  case (7 data index d x key k)
  from decode_progress(1)[OF this(4)] this(2,3) show ?case by auto
next
  case (8 data index d x key k y val k')
  from decode_progress(1)[OF 8(7)] decode_progress(1)[OF 8(8)] 8(2-6) show ?case by auto
qed

definition bdecode :: "string \<Rightarrow> py_error + bvalue" where
  "bdecode data = (case decode_next data 0 of Inl e \<Rightarrow> Inl e | Inr (result, _) \<Rightarrow> Inr result)"

subsection \<open>The regular expressions of the handler\<close>

text \<open>
  \<^verbatim>\<open>re.search(r"GET (http://[^ ]+) HTTP/1\.[01]", request_text)\<close>, returning group 1.
  At one position the pattern can match in one way only: the run \<^verbatim>\<open>[^ ]+\<close> must be
  followed by a space, so it is the whole run of characters up to the next space.
  The search returns the match at the leftmost position that has one.
\<close>

definition match_get_at :: "string \<Rightarrow> string option" where
  "match_get_at s =
     (if startswith ''GET http://'' s then
        (let rest = drop 11 s;
             run = takeWhile (\<lambda>c. c \<noteq> CHR '' '') rest;
             after = dropWhile (\<lambda>c. c \<noteq> CHR '' '') rest
         in if run \<noteq> [] \<and> (startswith '' HTTP/1.0'' after \<or> startswith '' HTTP/1.1'' after)
            then Some (''http://'' @ run)
            else None)
      else None)"

fun re_search_get :: "string \<Rightarrow> string option" where
  "re_search_get [] = None"
| "re_search_get (c # cs) =
     (case match_get_at (c # cs) of Some url \<Rightarrow> Some url | None \<Rightarrow> re_search_get cs)"

text \<open>
  \<^verbatim>\<open>re.match(r"http://([-a-zA-Z0-9\.]+)(?::([0-9]+))?(/.*)", url)\<close>, returning the host,
  the port digits when the optional group took part, and the path. The host is the
  whole run of host characters (the next character must be a colon or a slash, which
  are not host characters); the port group takes part exactly when a colon, digits and
  a slash follow; the path runs from the slash to the end of the line.
\<close>

definition is_host_char :: "char \<Rightarrow> bool" where
  "is_host_char c =
     (c \<in> set ''-.0123456789abcdefghijklmnopqrstuvwxyzABCDEFGHIJKLMNOPQRSTUVWXYZ'')"

definition re_match_url :: "string \<Rightarrow> (string \<times> string option \<times> string) option" where
  "re_match_url url =
     (if startswith ''http://'' url then
        (let rest = drop 7 url;
             host = takeWhile is_host_char rest;
             after = dropWhile is_host_char rest
         in if host = [] then None
            else if take 1 after = '':'' then
              (let ds = takeWhile is_digit (drop 1 after);
                   tail = dropWhile is_digit (drop 1 after)
               in if ds \<noteq> [] \<and> take 1 tail = ''/''
                  then Some (host, Some ds, takeWhile (\<lambda>c. c \<noteq> CHR 0x0A) tail)
                  else None)
            else if take 1 after = ''/''
              then Some (host, None, takeWhile (\<lambda>c. c \<noteq> CHR 0x0A) after)
              else None)
      else None)"

text \<open>
  \<^verbatim>\<open>re.search(rf"{key}=([^&]+)", query_string)\<close>. \<open>match_param_at\<close> is the match anchored
  at the head of the text and returns group 1, the whole run up to the next \<^verbatim>\<open>&\<close>, which
  must not be empty. \<open>re_search_param\<close> returns the start of the leftmost match and its
  group 1.
\<close>

definition match_param_at :: "string \<Rightarrow> string \<Rightarrow> string option" where
  "match_param_at key s =
     (let run = takeWhile (\<lambda>c. c \<noteq> CHR ''&'') (drop (length key + 1) s)
      in if startswith (key @ ''='') s \<and> run \<noteq> [] then Some run else None)"

fun re_search_param :: "string \<Rightarrow> string \<Rightarrow> (nat \<times> string) option" where
  "re_search_param key [] = None"
| "re_search_param key (c # cs) =
     (case match_param_at key (c # cs) of
        Some v \<Rightarrow> Some (0, v)
      | None \<Rightarrow>
          (case re_search_param key cs of
             None \<Rightarrow> None
           | Some (i, v) \<Rightarrow> Some (Suc i, v)))"

text \<open>
  \<^verbatim>\<open>re.sub(rf"({key}=)([^&]+)", r"\g<1>" + repl, query_string, count=1)\<close> for a
  replacement text without backslash: the leftmost match keeps its group 1 and has its
  group 2 replaced; a text without a match is returned as it is.
\<close>

definition re_sub_param :: "string \<Rightarrow> string \<Rightarrow> string \<Rightarrow> string" where
  "re_sub_param key repl s =
     (case re_search_param key s of
        None \<Rightarrow> s
      | Some (i, v) \<Rightarrow>
          take i s @ key @ ''='' @ repl @ drop (i + length key + 1 + length v) s)"

subsection \<open>Configuration, environment and outcome\<close>

text \<open>
  The module's global settings. The multipliers are floating-point numbers; their type
  \<open>'f\<close> is left open, and the one operation on them is a parameter of the handler.
\<close>

record 'f settings =
  min_seeders_threshold :: int
  upload_multiplier_low :: 'f
  upload_multiplier_high :: 'f
  no_download :: bool
  pretend_to_seed :: bool

text \<open>
  What the handler takes from outside the module:
  \<^item> \<open>decode_text\<close> is \<^verbatim>\<open>request_data.decode("utf-8", errors="ignore")\<close>;
  \<^item> \<open>product_text n m\<close> is \<^verbatim>\<open>str(n * m)\<close> for the integer \<open>n\<close> and the floating-point
    multiplier \<open>m\<close>, and \<open>None\<close> when the product raises \<^verbatim>\<open>OverflowError\<close> (the integer is
    beyond the floating-point range);
  \<^item> \<open>forward_to_tracker host port request\<close> is the reply read from the tracker, and
    \<open>None\<close> when connecting, sending or reading failed.
\<close>

record 'f world =
  decode_text :: "string \<Rightarrow> string"
  product_text :: "int \<Rightarrow> 'f \<Rightarrow> string option"
  forward_to_tracker :: "string \<Rightarrow> int \<Rightarrow> string \<Rightarrow> string option"

text \<open>
  What one run of the handler did: the request it handed to \<open>forward_to_tracker\<close> (if
  it called it), the data it handed to \<^verbatim>\<open>client_socket.sendall\<close> in order, whether it
  closed the client socket, and the dictionary \<^verbatim>\<open>seed_counts\<close> afterwards.
\<close>

record outcome =
  forwarded :: "(string \<times> int \<times> string) option"
  sent_to_client :: "string list"
  closed :: bool
  seed_counts :: "string \<rightharpoonup> int"

subsection \<open>The connection handler\<close>

text \<open>Lines 136 to 168: is the request a tracker announce, and to which tracker?\<close>

datatype request_kind =
    NotTrackerGet
  | UrlParseFailed
  | PortError
  | NoInfoHash
  | Announce string int string string

definition split_query :: "string \<Rightarrow> string \<times> string" where
  "split_query path =
     (if CHR ''?'' \<in> set path
      then (takeWhile (\<lambda>c. c \<noteq> CHR ''?'') path, drop 1 (dropWhile (\<lambda>c. c \<noteq> CHR ''?'') path))
      else (path, []))"

definition parse_request :: "string \<Rightarrow> request_kind" where
  "parse_request request_text =
     (case re_search_get request_text of
        None \<Rightarrow> NotTrackerGet
      | Some url \<Rightarrow>
          (case re_match_url url of
             None \<Rightarrow> UrlParseFailed
           | Some (host, port_group, path) \<Rightarrow>
               (case (case port_group of Some ds \<Rightarrow> py_int ds | None \<Rightarrow> Some 80) of
                  None \<Rightarrow> PortError
                | Some port \<Rightarrow>
                    (let (path_only, query_string) = split_query path
                     in if \<not> contains ''info_hash='' query_string then NoInfoHash
                        else Announce host port path_only query_string))))"

text \<open>Lines 171 to 175: the dictionary \<^verbatim>\<open>params\<close>.\<close>

definition extract_params :: "string \<Rightarrow> string \<rightharpoonup> string" where
  "extract_params query_string key =
     (if key \<in> set [''downloaded'', ''uploaded'', ''left'', ''info_hash'', ''event'']
      then map_option snd (re_search_param key query_string)
      else None)"

text \<open>
  Lines 179 to 184: the multiplier. \<open>info_hash\<close> is \<^verbatim>\<open>params.get("info_hash", None)\<close>;
  \<^verbatim>\<open>None\<close> is never a key of \<^verbatim>\<open>seed_counts\<close>.
\<close>

definition select_multiplier :: "'f settings \<Rightarrow> (string \<rightharpoonup> int) \<Rightarrow> string option \<Rightarrow> 'f" where
  "select_multiplier cfg counts info_hash =
     (if (case info_hash of
            None \<Rightarrow> False
          | Some h \<Rightarrow> (case counts h of None \<Rightarrow> False
                                     | Some n \<Rightarrow> n \<ge> min_seeders_threshold cfg))
      then upload_multiplier_high cfg
      else upload_multiplier_low cfg)"

text \<open>
  Lines 187 to 205: the three rewriting steps. Only the first can raise: the product
  of the integer and the floating-point multiplier.
\<close>

definition rewrite_uploaded ::
  "'f world \<Rightarrow> 'f \<Rightarrow> (string \<rightharpoonup> string) \<Rightarrow> string \<Rightarrow> py_error + string" where
  "rewrite_uploaded w multiplier params query_string =
     (case params ''uploaded'' of
        None \<Rightarrow> Inr query_string
      | Some v \<Rightarrow>
          (let original_uploaded = (case py_int v of Some n \<Rightarrow> n | None \<Rightarrow> 0)
           in case product_text w original_uploaded multiplier of
                None \<Rightarrow> Inl OverflowError
              | Some modified_uploaded \<Rightarrow>
                  Inr (re_sub_param ''uploaded'' modified_uploaded query_string)))"

definition rewrite_downloaded :: "'f settings \<Rightarrow> string \<Rightarrow> string" where
  "rewrite_downloaded cfg query_string =
     (if no_download cfg \<and> contains ''downloaded='' query_string
      then re_sub_param ''downloaded'' ''0'' query_string
      else query_string)"

definition rewrite_left :: "'f settings \<Rightarrow> string \<Rightarrow> string" where
  "rewrite_left cfg query_string =
     (if pretend_to_seed cfg \<and> contains ''left='' query_string
      then re_sub_param ''left'' ''0'' query_string
      else query_string)"

definition rewrite_query ::
  "'f world \<Rightarrow> 'f settings \<Rightarrow> 'f \<Rightarrow> (string \<rightharpoonup> string) \<Rightarrow> string \<Rightarrow> py_error + string" where
  "rewrite_query w cfg multiplier params query_string =
     (case rewrite_uploaded w multiplier params query_string of
        Inl e \<Rightarrow> Inl e
      | Inr q \<Rightarrow> Inr (rewrite_left cfg (rewrite_downloaded cfg q)))"

text \<open>
  Lines 208 to 221: the request sent to the tracker. \<open>split_crlf\<close> is
  \<^verbatim>\<open>request_text.split("\r\n")\<close>, \<open>join_crlf\<close> is \<^verbatim>\<open>"\r\n".join(lines)\<close>, and \<open>is_host_line\<close>
  is \<^verbatim>\<open>line.lower().startswith("host:")\<close>.
\<close>

fun split_crlf :: "string \<Rightarrow> string list" where
  "split_crlf [] = [[]]"
| "split_crlf [c] = [[c]]"
| "split_crlf (c # d # cs) =
     (if c = CHR 0x0D \<and> d = CHR 0x0A then [] # split_crlf cs
      else (case split_crlf (d # cs) of
              [] \<Rightarrow> [[c]]
            | l # ls \<Rightarrow> (c # l) # ls))"

fun join_crlf :: "string list \<Rightarrow> string" where
  "join_crlf [] = []"
| "join_crlf [l] = l"
| "join_crlf (l # m # ls) = l @ [CHR 0x0D, CHR 0x0A] @ join_crlf (m # ls)"

definition is_host_line :: "string \<Rightarrow> bool" where
  "is_host_line line =
     (length line \<ge> 5
      \<and> line ! 0 \<in> set ''hH'' \<and> line ! 1 \<in> set ''oO'' \<and> line ! 2 \<in> set ''sS''
      \<and> line ! 3 \<in> set ''tT'' \<and> line ! 4 = CHR '':'')"

definition update_headers :: "string \<Rightarrow> int \<Rightarrow> string list \<Rightarrow> string list" where
  "update_headers host port header_lines =
     concat (map (\<lambda>line. if is_host_line line then [''Host: '' @ host @ '':'' @ str_int port]
                          else if line \<noteq> [] then [line] else []) header_lines)"

definition build_request :: "string \<Rightarrow> int \<Rightarrow> string \<Rightarrow> string \<Rightarrow> string \<Rightarrow> string" where
  "build_request host port path_only query_string request_text =
     (let new_path = (if query_string \<noteq> [] then path_only @ ''?'' @ query_string else path_only);
          new_request_line = ''GET '' @ new_path @ '' HTTP/1.1'' @ [CHR 0x0D, CHR 0x0A];
          header_lines = tl (split_crlf request_text);
          headers = join_crlf (update_headers host port header_lines)
                      @ [CHR 0x0D, CHR 0x0A, CHR 0x0D, CHR 0x0A]
      in new_request_line @ headers)"

text \<open>
  Lines 228 to 240: what the reply does to \<^verbatim>\<open>seed_counts\<close>. A reply that does not decode
  leaves it alone; so does a decoded value that is not a dictionary, or is the empty
  dictionary (which is false in a condition). \<open>int_of_value\<close> is \<^verbatim>\<open>int(complete)\<close>, which
  raises for a byte string that is not a number, a list or a dictionary; the default of
  the lookup is the byte string \<^verbatim>\<open>b"0"\<close>.
\<close>

fun int_of_value :: "bvalue \<Rightarrow> py_error + int" where
  "int_of_value (BInt n) = Inr n"
| "int_of_value (BStr s) = (case py_int s of Some n \<Rightarrow> Inr n | None \<Rightarrow> Inl ValueError)"
| "int_of_value (BList _) = Inl TypeError"
| "int_of_value (BDict _) = Inl TypeError"

definition update_seed_counts ::
  "(string \<rightharpoonup> int) \<Rightarrow> string option \<Rightarrow> string \<Rightarrow> py_error + (string \<rightharpoonup> int)" where
  "update_seed_counts counts info_hash tracker_response =
     (case bdecode tracker_response of
        Inr (BDict d) \<Rightarrow>
          (if d \<noteq> [] then
             (let complete = dict_get d (BStr ''complete'') (BStr ''0'')
              in case info_hash of
                   None \<Rightarrow> Inr counts
                 | Some h \<Rightarrow>
                     (case int_of_value complete of
                        Inl e \<Rightarrow> Inl e
                      | Inr n \<Rightarrow> Inr (counts(h \<mapsto> n))))
           else Inr counts)
      | _ \<Rightarrow> Inr counts)"

text \<open>
  \<^verbatim>\<open>forward_request(client_socket, data)\<close>: the data goes to \<^verbatim>\<open>sendall\<close> of the client
  socket, which is then closed.
\<close>

definition forward_request :: "(string \<rightharpoonup> int) \<Rightarrow> string \<Rightarrow> outcome" where
  "forward_request counts data =
     \<lparr>forwarded = None, sent_to_client = [data], closed = True, seed_counts = counts\<rparr>"

text \<open>
  \<^verbatim>\<open>handle_client\<close>. An exception anywhere in the body is caught by the handler's own
  \<^verbatim>\<open>except Exception\<close>, which logs it; the \<^verbatim>\<open>finally\<close> clause closes the client socket.
  \<open>aborted\<close> is that end of a run: nothing more is sent, and \<^verbatim>\<open>seed_counts\<close> is as it was.
\<close>

definition aborted :: "(string \<rightharpoonup> int) \<Rightarrow> (string \<times> int \<times> string) option \<Rightarrow> outcome" where
  "aborted counts fwd =
     \<lparr>forwarded = fwd, sent_to_client = [], closed = True, seed_counts = counts\<rparr>"

definition handle_client :: "'f world \<Rightarrow> 'f settings \<Rightarrow> (string \<rightharpoonup> int) \<Rightarrow> string \<Rightarrow> outcome" where
  "handle_client w cfg counts request_data =
     (if request_data = [] then aborted counts None
      else
        (let request_text = decode_text w request_data
         in case parse_request request_text of
              NotTrackerGet \<Rightarrow> forward_request counts request_data
            | UrlParseFailed \<Rightarrow> aborted counts None
            | PortError \<Rightarrow> aborted counts None
            | NoInfoHash \<Rightarrow> forward_request counts request_data
            | Announce host port path_only query_string \<Rightarrow>
                (let params = extract_params query_string;
                     info_hash = params ''info_hash'';
                     multiplier = select_multiplier cfg counts info_hash
                 in case rewrite_query w cfg multiplier params query_string of
                      Inl e \<Rightarrow> aborted counts None
                    | Inr new_query \<Rightarrow>
                        (let modified_request =
                               build_request host port path_only new_query request_text;
                             call = Some (host, port, modified_request)
                         in case forward_to_tracker w host port modified_request of
                              None \<Rightarrow> aborted counts call
                            | Some tracker_response \<Rightarrow>
                                if tracker_response = [] then aborted counts call
                                else
                                  (case update_seed_counts counts info_hash tracker_response of
                                     Inl e \<Rightarrow> aborted counts call
                                   | Inr counts' \<Rightarrow>
                                       \<lparr>forwarded = call,
                                        sent_to_client = [tracker_response],
                                        closed = True,
                                        seed_counts = counts'\<rparr>)))))"

subsection \<open>Fields of a query string\<close>



subsection \<open>A concrete environment\<close>

text \<open>
  For runs at concrete requests: the request bytes are ASCII, so decoding them is
  the identity; the tracker answers every request with the same reply (or not at all);
  and a multiplier is given in halves, \<open>k\<close> standing for the floating-point number
  \<open>k / 2\<close>. For \<open>k > 0\<close> and a product below \<open>10^16\<close> in absolute value, \<open>halves_text n k\<close>
  is the text Python prints for \<open>n * (k / 2)\<close>: the product is exact and is printed with
  one digit after the point.
\<close>

definition halves_text :: "int \<Rightarrow> int \<Rightarrow> string option" where
  "halves_text n k =
     (let p = n * k
      in Some ((if p < 0 then ''-'' else []) @ str_digits (\<bar>p\<bar> div 2)
               @ (if p mod 2 = 0 then ''.0'' else ''.5'')))"

definition example_world :: "string option \<Rightarrow> int world" where
  "example_world reply =
     \<lparr>decode_text = (\<lambda>b. b), product_text = halves_text,
      forward_to_tracker = (\<lambda>host port request. reply)\<rparr>"

text \<open>The default settings: threshold 5, low multiplier 3.0, high multiplier 1.5.\<close>

definition example_settings :: "int settings" where
  "example_settings =
     \<lparr>min_seeders_threshold = 5, upload_multiplier_low = 6, upload_multiplier_high = 3,
      no_download = False, pretend_to_seed = False\<rparr>"

definition crlf :: string where
  "crlf = [CHR 0x0D, CHR 0x0A]"

definition example_query :: string where
  "example_query = ''info_hash=ABC&uploaded=1000&downloaded=500&left=0&event=started''"

definition example_request :: string where
  "example_request =
     ''GET http://tracker.example.com:6969/announce?'' @ example_query @ '' HTTP/1.1'' @ crlf
       @ ''Host: tracker.example.com:6969'' @ crlf @ crlf"

definition example_reply :: string where
  "example_reply = ''d8:completei5e10:incompletei2e8:intervali1800ee''"

section \<open>Properties\<close>

subsection \<open>Facts about the built-ins and the decoder\<close>

text \<open>
  A length prefix starts with a digit, so the integer read from it is never negative:
  the slice bounds of the string branch are natural numbers.
\<close>

lemma digit_val_nonneg: "is_digit c \<Longrightarrow> 0 \<le> digit_val c"
  by (auto simp: is_digit_def digit_val_def)

lemma foldl_digits_nonneg:
  "0 \<le> a \<Longrightarrow> list_all is_digit ds \<Longrightarrow> 0 \<le> foldl (\<lambda>a c. 10 * a + digit_val c) a ds"
proof (induction ds arbitrary: a)
  case Nil
  then show ?case by simp
next
  case (Cons d ds)
  from Cons.prems have "0 \<le> 10 * a + digit_val d"
    using digit_val_nonneg[of d] by simp
  with Cons show ?case by simp
qed

lemma digits_value_nonneg: "0 \<le> digits_value s"
  unfolding digits_value_def
  by (rule foldl_digits_nonneg) (simp_all add: list_all_iff)

lemma strip_keeps_head:
  assumes "\<not> is_space c"
  shows "\<exists>t. strip (c # s) = c # t"
proof -
  have a: "dropWhile is_space (c # s) = c # s" using assms by simp
  have "dropWhile is_space (rev s @ [c]) = dropWhile is_space (rev s) @ [c]"
    using assms by (induction "rev s") (simp_all add: dropWhile_append3)
  then have "strip (c # s) = c # rev (dropWhile is_space (rev s))"
    using a by (simp add: strip_def)
  then show ?thesis by blast
qed

lemma py_int_digit_head_nonneg:
  assumes "is_digit c" and "py_int (c # s) = Some n"
  shows "0 \<le> n"
proof -
  from assms(1) have ns: "\<not> is_space c" and nm: "c \<noteq> CHR ''-''"
    by (auto simp: is_digit_def is_space_def)
  from strip_keeps_head[OF ns] obtain t where t: "strip (c # s) = c # t" by blast
  from assms(2) t nm show ?thesis
    by (auto simp: py_int_def Let_def digits_value_nonneg split: if_splits)
qed


subsection \<open>Facts about the searches and the substitution\<close>










subsection \<open>Facts about the handler\<close>



text \<open>The example request is an announce to \<^verbatim>\<open>tracker.example.com:6969\<close>.\<close>

lemma example_request_nonempty: "example_request \<noteq> []"
  by (simp add: example_request_def)

lemma example_request_parsed:
  "parse_request (decode_text (example_world reply) example_request) =
     Announce ''tracker.example.com'' 6969 ''/announce'' example_query"
  unfolding example_world_def by code_simp

subsection \<open>The multiplier\<close>

text \<open>
  C1. For an eligible request the multiplier is chosen by the seeder count recorded
  under the swarm identifier that \<^verbatim>\<open>params\<close> holds for the request: the high multiplier
  when a count is recorded and is at least the threshold, the low multiplier otherwise;
  in particular the low multiplier when nothing is recorded under the identifier,
  whatever the threshold. The request sent to the tracker is built from the query
  rewritten with that multiplier.
\<close>

theorem multiplier_by_seed_count:
  assumes "request_data \<noteq> []"
    and "parse_request (decode_text w request_data) = Announce host port path_only query_string"
  shows "select_multiplier cfg counts (extract_params query_string ''info_hash'') =
           (if \<exists>h n. extract_params query_string ''info_hash'' = Some h \<and> counts h = Some n
                      \<and> min_seeders_threshold cfg \<le> n
            then upload_multiplier_high cfg else upload_multiplier_low cfg)
         \<and> ((\<forall>h. extract_params query_string ''info_hash'' = Some h \<longrightarrow> counts h = None)
              \<longrightarrow> select_multiplier cfg counts (extract_params query_string ''info_hash'') =
                    upload_multiplier_low cfg)
         \<and> forwarded (handle_client w cfg counts request_data) =
             (case rewrite_query w cfg
                     (select_multiplier cfg counts (extract_params query_string ''info_hash''))
                     (extract_params query_string) query_string of
                Inl e \<Rightarrow> None
              | Inr new_query \<Rightarrow>
                  Some (host, port,
                        build_request host port path_only new_query (decode_text w request_data)))"
proof -
  let ?ih = "extract_params query_string ''info_hash''"
  have a: "select_multiplier cfg counts ?ih =
           (if \<exists>h n. ?ih = Some h \<and> counts h = Some n \<and> min_seeders_threshold cfg \<le> n
            then upload_multiplier_high cfg else upload_multiplier_low cfg)"
    by (auto simp: select_multiplier_def split: option.splits)
  have b: "(\<forall>h. ?ih = Some h \<longrightarrow> counts h = None)
              \<longrightarrow> select_multiplier cfg counts ?ih = upload_multiplier_low cfg"
    by (auto simp: select_multiplier_def split: option.splits)
  have c: "forwarded (handle_client w cfg counts request_data) =
             (case rewrite_query w cfg (select_multiplier cfg counts ?ih)
                     (extract_params query_string) query_string of
                Inl e \<Rightarrow> None
              | Inr new_query \<Rightarrow>
                  Some (host, port,
                        build_request host port path_only new_query (decode_text w request_data)))"
    using assms
    by (simp add: handle_client_def Let_def aborted_def split: option.splits sum.splits)
  from a b c show ?thesis by (simp only: simp_thms)
qed

text \<open>
  The example request with ten seeders recorded for \<^verbatim>\<open>ABC\<close>: the high multiplier 1.5 is
  chosen and the tracker is told \<^verbatim>\<open>uploaded=1500.0\<close>.
\<close>

theorem multiplier_by_seed_count_witness:
  "example_request \<noteq> []
   \<and> parse_request (decode_text (example_world None) example_request) =
       Announce ''tracker.example.com'' 6969 ''/announce'' example_query
   \<and> select_multiplier example_settings [''ABC'' \<mapsto> 10]
       (extract_params example_query ''info_hash'') = 3
   \<and> forwarded (handle_client (example_world None) example_settings [''ABC'' \<mapsto> 10]
                  example_request) =
       Some (''tracker.example.com'', 6969,
             build_request ''tracker.example.com'' 6969 ''/announce''
               ''info_hash=ABC&uploaded=1500.0&downloaded=500&left=0&event=started''
               example_request)"
proof -
  let ?w = "example_world None" and ?c = "[''ABC'' \<mapsto> (10::int)]"
  note h1 = example_request_nonempty
  note h2 = example_request_parsed[of None]
  have ih: "extract_params example_query ''info_hash'' = Some ''ABC''" by code_simp
  have hi: "\<exists>h n. extract_params example_query ''info_hash'' = Some h \<and> ?c h = Some n
                   \<and> min_seeders_threshold example_settings \<le> n"
    using ih by (simp add: example_settings_def)
  have up: "upload_multiplier_high example_settings = 3" by (simp add: example_settings_def)
  from multiplier_by_seed_count[OF h1 h2, of example_settings ?c] hi up
  have m: "select_multiplier example_settings ?c (extract_params example_query ''info_hash'') = 3"
    and f: "forwarded (handle_client ?w example_settings ?c example_request) =
             (case rewrite_query ?w example_settings
                     (select_multiplier example_settings ?c
                        (extract_params example_query ''info_hash''))
                     (extract_params example_query) example_query of
                Inl e \<Rightarrow> None
              | Inr new_query \<Rightarrow>
                  Some (''tracker.example.com'', 6969,
                        build_request ''tracker.example.com'' 6969 ''/announce'' new_query
                          (decode_text ?w example_request)))"
    by simp_all
  have r: "rewrite_query ?w example_settings 3 (extract_params example_query) example_query =
             Inr ''info_hash=ABC&uploaded=1500.0&downloaded=500&left=0&event=started''"
    unfolding example_world_def by code_simp
  have d: "decode_text ?w example_request = example_request"
    by (simp add: example_world_def)
  from h1 h2 m f r d show ?thesis by simp
qed

subsection \<open>Requests that are not announces\<close>

text \<open>
  What the handler does with a request that is not an announce: it never calls the
  tracker, leaves \<^verbatim>\<open>seed_counts\<close> alone and closes the client socket. When the request line is
  no \<^verbatim>\<open>GET\<close> of an absolute URI, or the query has no \<^verbatim>\<open>info_hash=\<close>, it first hands the
  received bytes to \<^verbatim>\<open>sendall\<close> of the client socket (\<^verbatim>\<open>forward_request\<close>); only when the URL
  does not parse is nothing sent.
\<close>

lemma handle_client_not_announce:
  assumes "\<forall>host port path_only query_string.
             parse_request (decode_text w request_data)
               \<noteq> Announce host port path_only query_string"
  shows "forwarded (handle_client w cfg counts request_data) = None"
    and "closed (handle_client w cfg counts request_data)"
    and "seed_counts (handle_client w cfg counts request_data) = counts"
    and "sent_to_client (handle_client w cfg counts request_data) =
           (if request_data \<noteq> []
               \<and> parse_request (decode_text w request_data) \<in> {NotTrackerGet, NoInfoHash}
            then [request_data] else [])"
  using assms
  by (auto simp: handle_client_def Let_def aborted_def forward_request_def
           split: request_kind.splits)

text \<open>
  C2. The claim is that an ineligible request gets no bytes back. The run below is the
  announce without \<^verbatim>\<open>info_hash\<close>: no request goes to the tracker and the socket is closed,
  but the request's own bytes have been sent back to the client.
\<close>

theorem request_without_info_hash_is_echoed:
  "parse_request (decode_text (example_world None)
      (''GET http://tracker.example.com:6969/announce?uploaded=1000 HTTP/1.1'' @ crlf @ crlf))
     = NoInfoHash
   \<and> forwarded (handle_client (example_world None) example_settings Map.empty
        (''GET http://tracker.example.com:6969/announce?uploaded=1000 HTTP/1.1'' @ crlf @ crlf))
     = None
   \<and> sent_to_client (handle_client (example_world None) example_settings Map.empty
        (''GET http://tracker.example.com:6969/announce?uploaded=1000 HTTP/1.1'' @ crlf @ crlf))
     = [''GET http://tracker.example.com:6969/announce?uploaded=1000 HTTP/1.1'' @ crlf @ crlf]
   \<and> closed (handle_client (example_world None) example_settings Map.empty
        (''GET http://tracker.example.com:6969/announce?uploaded=1000 HTTP/1.1'' @ crlf @ crlf))"
  unfolding example_world_def by code_simp

subsection \<open>The upload count\<close>



text \<open>
  When the product cannot be computed (Python raises \<^verbatim>\<open>OverflowError\<close> for an integer
  beyond the floating-point range), the exception ends the run: nothing is sent to the
  tracker or to the client.
\<close>

lemma product_overflow_aborts:
  assumes "request_data \<noteq> []"
    and "parse_request (decode_text w request_data) = Announce host port path_only query_string"
    and "extract_params query_string ''uploaded'' = Some v"
    and "product_text w (case py_int v of Some n \<Rightarrow> n | None \<Rightarrow> 0)
           (select_multiplier cfg counts (extract_params query_string ''info_hash'')) = None"
  shows "forwarded (handle_client w cfg counts request_data) = None"
    and "sent_to_client (handle_client w cfg counts request_data) = []"
    and "closed (handle_client w cfg counts request_data)"
    and "seed_counts (handle_client w cfg counts request_data) = counts"
  using assms
  by (simp_all add: handle_client_def Let_def aborted_def rewrite_query_def
                    rewrite_uploaded_def)

subsection \<open>Byte strings shorter than their declared length\<close>

text \<open>
  The string branch of the decoder takes the slice of the declared length and never
  compares it with what the data holds: a buffer that is one byte string decodes to
  the bytes that follow the colon, cut at the declared length.
\<close>

lemma decode_next_string:
  assumes "is_digit c" and "CHR '':'' \<notin> set (c # ds)" and "py_int (c # ds) = Some n"
  shows "decode_next ((c # ds) @ '':'' @ rest) 0 =
           Inr (BStr (take (nat n) rest), length (c # ds) + 1 + nat n)"
proof -
  let ?data = "(c # ds) @ '':'' @ rest"
  have h: "slice ?data 0 (0 + 1) = [c]" by (simp add: slice_def)
  have ni: "[c] \<noteq> ''i''" using assms(1) by (auto simp: is_digit_def)
  have dg: "list_all is_digit [c]" using assms(1) by simp
  have "takeWhile (\<lambda>x. x \<noteq> CHR '':'') ?data = c # ds"
    using assms(2) by (auto simp: takeWhile_tail)
  then have ix: "index_of CHR '':'' ?data 0 = Some (length (c # ds))"
    by (simp add: index_of_def)
  have sl: "slice ?data 0 (length (c # ds)) = c # ds" by (simp add: slice_def)
  have st: "slice ?data (length (c # ds) + 1) (length (c # ds) + 1 + nat n) = take (nat n) rest"
    by (simp add: slice_def)
  show ?thesis
    by (subst decode_next.simps) (simp only: h ni dg ix sl st assms(3) Let_def
          if_False if_True simp_thms option.case not_Cons_self2 list.distinct)
qed

lemma bdecode_truncated_string:
  assumes "is_digit c" and "CHR '':'' \<notin> set (c # ds)" and "py_int (c # ds) = Some n"
    and "int (length rest) < n"
  shows "bdecode ((c # ds) @ '':'' @ rest) = Inr (BStr rest)"
  using decode_next_string[OF assms(1-3), of rest] assms(4)
  by (simp add: bdecode_def)

text \<open>
  Inside a list the same string makes the decoder fail, because the index it returns
  lies beyond the data and the closing \<^verbatim>\<open>e\<close> is not found.
\<close>

lemma truncated_string_in_list_fails: "bdecode ''l5:abe'' = Inl ValueError"
  by code_simp

text \<open>
  C4. The claim is that decoding fails whenever a byte string declares more bytes than
  remain. The buffer \<^verbatim>\<open>5:ab\<close> declares five bytes and holds two; the decoder returns the
  two bytes as the value.
\<close>

theorem truncated_string_decodes: "bdecode ''5:ab'' = Inr (BStr ''ab'')"
  by code_simp

subsection \<open>Relaying the reply\<close>

text \<open>
  The reply goes to the client exactly when updating \<^verbatim>\<open>seed_counts\<close> from it does not
  raise. A reply that does not decode is therefore always relayed; a reply that decodes
  to a dictionary whose \<^verbatim>\<open>complete\<close> entry cannot be read as an integer is not.
\<close>

lemma reply_relayed:
  assumes "request_data \<noteq> []"
    and "parse_request (decode_text w request_data) = Announce host port path_only query_string"
    and "rewrite_query w cfg (select_multiplier cfg counts (extract_params query_string ''info_hash''))
           (extract_params query_string) query_string = Inr new_query"
    and "forward_to_tracker w host port
           (build_request host port path_only new_query (decode_text w request_data)) = Some reply"
    and "reply \<noteq> []"
  shows "sent_to_client (handle_client w cfg counts request_data) =
           (case update_seed_counts counts (extract_params query_string ''info_hash'') reply of
              Inl e \<Rightarrow> [] | Inr counts' \<Rightarrow> [reply])"
  using assms
  by (simp add: handle_client_def Let_def aborted_def split: sum.splits)

lemma update_seed_counts_undecodable:
  "bdecode reply = Inl e \<Longrightarrow> update_seed_counts counts info_hash reply = Inr counts"
  by (simp add: update_seed_counts_def)

lemma undecodable_reply_relayed:
  assumes "request_data \<noteq> []"
    and "parse_request (decode_text w request_data) = Announce host port path_only query_string"
    and "rewrite_query w cfg (select_multiplier cfg counts (extract_params query_string ''info_hash''))
           (extract_params query_string) query_string = Inr new_query"
    and "forward_to_tracker w host port
           (build_request host port path_only new_query (decode_text w request_data)) = Some reply"
    and "reply \<noteq> []"
    and "bdecode reply = Inl e"
  shows "sent_to_client (handle_client w cfg counts request_data) = [reply]"
  using reply_relayed[OF assms(1-5)] update_seed_counts_undecodable[OF assms(6)]
  by simp

text \<open>
  C5. The claim is that every reply the tracker returns reaches the client. The run
  below is the example request answered by \<^verbatim>\<open>d8:complete1:xe\<close>: the reply decodes to a
  dictionary, \<^verbatim>\<open>int(b"x")\<close> raises inside the update of \<^verbatim>\<open>seed_counts\<close>, and the handler
  closes the socket without having sent the reply.
\<close>

theorem unreadable_count_blocks_reply:
  "bdecode ''d8:complete1:xe'' = Inr (BDict [(BStr ''complete'', BStr ''x'')])
   \<and> forwarded (handle_client (example_world (Some ''d8:complete1:xe'')) example_settings
        Map.empty example_request) \<noteq> None
   \<and> sent_to_client (handle_client (example_world (Some ''d8:complete1:xe'')) example_settings
        Map.empty example_request) = []
   \<and> closed (handle_client (example_world (Some ''d8:complete1:xe'')) example_settings
        Map.empty example_request)"
  unfolding example_world_def by code_simp

subsection \<open>When the seeder counts change\<close>

lemma update_seed_counts_changed:
  "update_seed_counts counts info_hash reply = Inr counts' \<Longrightarrow> counts' \<noteq> counts \<Longrightarrow>
     \<exists>d. bdecode reply = Inr (BDict d)"
  by (auto simp: update_seed_counts_def Let_def
           split: sum.splits bvalue.splits if_splits option.splits)

text \<open>
  C6. \<^verbatim>\<open>seed_counts\<close> is changed only from a reply that decodes to a dictionary: if a run
  of the handler leaves \<^verbatim>\<open>seed_counts\<close> different from what it was, then the handler sent a
  request to the tracker, and the reply to that request decodes to a dictionary. So a
  reply that does not decode, or decodes to anything else (a bare integer, say), leaves
  \<^verbatim>\<open>seed_counts\<close> exactly as it was.
\<close>

theorem seed_counts_changed_only_by_dictionary:
  assumes "seed_counts (handle_client w cfg counts request_data) \<noteq> counts"
  shows "\<exists>host port request reply d.
           forwarded (handle_client w cfg counts request_data) = Some (host, port, request)
           \<and> forward_to_tracker w host port request = Some reply
           \<and> bdecode reply = Inr (BDict d)"
  using assms
  by (auto simp: handle_client_def Let_def aborted_def forward_request_def
           split: if_splits request_kind.splits sum.splits option.splits
           dest: update_seed_counts_changed)

text \<open>
  The example request answered by the example reply records five seeders for \<^verbatim>\<open>ABC\<close>.
\<close>

theorem seed_counts_changed_only_by_dictionary_witness:
  "seed_counts (handle_client (example_world (Some example_reply)) example_settings
      Map.empty example_request) \<noteq> Map.empty
   \<and> (\<exists>host port request reply d.
         forwarded (handle_client (example_world (Some example_reply)) example_settings
            Map.empty example_request) = Some (host, port, request)
         \<and> forward_to_tracker (example_world (Some example_reply)) host port request = Some reply
         \<and> bdecode reply = Inr (BDict d))"
proof -
  have "seed_counts (handle_client (example_world (Some example_reply)) example_settings
          Map.empty example_request) ''ABC'' = Some 5"
    unfolding example_world_def by code_simp
  then have h: "seed_counts (handle_client (example_world (Some example_reply)) example_settings
          Map.empty example_request) \<noteq> Map.empty"
    by (metis option.distinct(1))
  from h seed_counts_changed_only_by_dictionary[OF h] show ?thesis by (intro conjI)
qed

subsection \<open>The fields the rewriting leaves alone\<close>


















subsection \<open>Requests whose swarm identifier is empty or repeated\<close>




subsection \<open>Replies without a seeder count\<close>




end
